theory Spec2Isabelle
  imports Complex_Main "HOL-Library.Sublist"
begin

section \<open>The command-line layer of pyprophet (\<^verbatim>\<open>pyprophet/main.py\<close>)\<close>

text \<open>
  Every subcommand of \<^verbatim>\<open>main.py\<close> prepares its arguments and hands them to one
  function of another module (\<^verbatim>\<open>runner\<close>, \<^verbatim>\<open>ipf\<close>, \<^verbatim>\<open>levels_contexts\<close>,
  \<^verbatim>\<open>export\<close>, \<^verbatim>\<open>filter\<close>, ...). A subcommand is modelled as the function from its
  arguments to its outcome: the external call it ends in, a plain return, or the
  exception it raises itself.
\<close>

subsection \<open>Python values\<close>

text \<open>
  The values \<^verbatim>\<open>ast.literal_eval\<close> can produce; \<^verbatim>\<open>PythonLiteralOption\<close> hands them to
  \<^verbatim>\<open>filter\<close> unchanged. Floats are carried as reals: the layer only forwards them.
\<close>

datatype pyval =
    PyNone
  | PyEllipsis
  | PyBool bool
  | PyInt int
  | PyFloat real
  | PyStr string
  | PyBytes string
  | PyList "pyval list"
  | PyTuple "pyval list"
  | PySet "pyval list"
  | PyDict "(pyval \<times> pyval) list"

datatype message =
    Need_infile_or_naked_peptides
  | Wrong_sqlite_db_files "string list"
  | No_len pyval

datatype py_error =
    ClickException message
  | TypeError message

text \<open>Python's \<^verbatim>\<open>len\<close>: defined on the sized values, a \<^verbatim>\<open>TypeError\<close> on the others.\<close>

fun py_len :: "pyval \<Rightarrow> py_error + nat" where
  "py_len (PyStr s) = Inr (length s)"
| "py_len (PyBytes s) = Inr (length s)"
| "py_len (PyList xs) = Inr (length xs)"
| "py_len (PyTuple xs) = Inr (length xs)"
| "py_len (PySet xs) = Inr (length xs)"
| "py_len (PyDict kvs) = Inr (length kvs)"
| "py_len v = Inl (TypeError (No_len v))"

subsection \<open>External calls and outcomes\<close>

text \<open>
  The functions the subcommands end in. \<open>'o\<close> stands for the options a subcommand
  forwards to its callee unchanged and in order.
\<close>

datatype xgb_value = XInt int | XFloat real | XStr string | XBool bool

datatype hp_value =
    Hp_uniform string real real
  | Hp_quniform string real real real
  | Hp_const xgb_value

datatype export_format = Matrix | Legacy_split | Legacy_merged | Score_plots

datatype 'o call =
    PyProphetLearner_run string string "(string \<times> xgb_value) list"
      "(string \<times> xgb_value) list" "(string \<times> hp_value) list" 'o bool
  | PyProphetWeightApplier_run string string "(string \<times> xgb_value) list"
      "(string \<times> xgb_value) list" "(string \<times> hp_value) list" 'o bool "string option"
  | Infer_peptidoforms string string 'o
  | Infer_glycoforms string string 'o
  | Infer_peptides string string 'o
  | Infer_glycopeptides string string 'o
  | Infer_genes string string 'o
  | Infer_proteins string string 'o
  | Subsample_osw string string 'o
  | Reduce_osw string string
  | Backpropagate_oswr string string string
  | Export_score_plots string
  | Export_glyco_score_plots string
  | Export_tsv string string export_format bool 'o
  | Export_glyco_tsv string string export_format bool 'o
  | Export_compound_tsv string string export_format bool 'o
  | Filter_sqmass "string list" "string option" real real real pyval bool
  | Filter_osw "string list" bool pyval "real option" "real option" "real option"
      "real option" pyval pyval

datatype 'o outcome =
    Calls "'o call"
  | Returns
  | Raises py_error

subsection \<open>The \<^verbatim>\<open>filter\<close> subcommand\<close>

text \<open>
  \<^verbatim>\<open>pathlib.PurePosixPath(file).suffix.lower()\<close> belongs to the standard library and
  is the parameter \<open>suffix_lower\<close>. Both \<^verbatim>\<open>click.ClickException(...)\<close> expressions of the
  source are expression statements: the exception object is built and dropped, which
  the model writes as a binding that nothing reads.
\<close>

definition filter_command ::
  "(string \<Rightarrow> string) \<Rightarrow> string list \<Rightarrow> string option \<Rightarrow> real \<Rightarrow> real \<Rightarrow> real \<Rightarrow> bool
     \<Rightarrow> pyval \<Rightarrow> real option \<Rightarrow> real option \<Rightarrow> real option \<Rightarrow> real option
     \<Rightarrow> pyval \<Rightarrow> pyval \<Rightarrow> 'o outcome" where
  "filter_command suffix_lower sqldbfiles infile max_precursor_pep max_peakgroup_pep
       max_transition_pep remove_decoys omit_tables max_gene_fdr max_protein_fdr
       max_peptide_fdr max_ms2_fdr keep_naked_peptides run_ids =
     (if list_all (\<lambda>file. suffix_lower file = ''.sqmass'') sqldbfiles then
        (case (if infile = None
               then map_sum id (\<lambda>n. n = 0) (py_len keep_naked_peptides)
               else Inr False) of
           Inl e \<Rightarrow> Raises e
         | Inr missing \<Rightarrow>
             (let dropped =
                    (if missing then Some (ClickException Need_infile_or_naked_peptides)
                     else None)
              in Calls (Filter_sqmass sqldbfiles infile max_precursor_pep max_peakgroup_pep
                          max_transition_pep keep_naked_peptides remove_decoys)))
      else if list_all (\<lambda>file. suffix_lower file = ''.osw'') sqldbfiles then
        Calls (Filter_osw sqldbfiles remove_decoys omit_tables max_gene_fdr max_protein_fdr
                 max_peptide_fdr max_ms2_fdr keep_naked_peptides run_ids)
      else
        (let dropped = Some (ClickException (Wrong_sqlite_db_files sqldbfiles))
         in Returns))"

text \<open>
  A model of the library's suffix for concrete runs (CPython 3.8 to 3.13): the name is
  the last component of the path that is neither empty nor \<^verbatim>\<open>.\<close>; its suffix starts at
  the last dot, unless that dot is the first or the last character of the name.
  \<^verbatim>\<open>lower\<close> is modelled on ASCII.
\<close>

fun split_on :: "char \<Rightarrow> string \<Rightarrow> string list" where
  "split_on c [] = [[]]"
| "split_on c (x # xs) =
     (if x = c then [] # split_on c xs
      else (case split_on c xs of [] \<Rightarrow> [[x]] | r # rs \<Rightarrow> (x # r) # rs))"

definition path_name :: "string \<Rightarrow> string" where
  "path_name p =
     (case rev (filter (\<lambda>c. c \<noteq> [] \<and> c \<noteq> ''.'') (split_on (CHR ''/'') p)) of
        [] \<Rightarrow> []
      | n # _ \<Rightarrow> n)"

definition rfind_dot :: "string \<Rightarrow> nat option" where
  "rfind_dot s =
     (if CHR ''.'' \<in> set s
      then Some (length s - 1 - length (takeWhile (\<lambda>x. x \<noteq> CHR ''.'') (rev s)))
      else None)"

definition path_suffix :: "string \<Rightarrow> string" where
  "path_suffix p =
     (let name = path_name p in
      case rfind_dot name of
        None \<Rightarrow> []
      | Some i \<Rightarrow> (if 0 < i \<and> i < length name - 1 then drop i name else []))"

definition ascii_lower :: "char \<Rightarrow> char" where
  "ascii_lower c =
     (case map_of (zip ''ABCDEFGHIJKLMNOPQRSTUVWXYZ'' ''abcdefghijklmnopqrstuvwxyz'') c of
        None \<Rightarrow> c
      | Some l \<Rightarrow> l)"

definition posix_suffix_lower :: "string \<Rightarrow> string" where
  "posix_suffix_lower p = map ascii_lower (path_suffix p)"

subsection \<open>The subcommands with an optional \<^verbatim>\<open>--out\<close>\<close>

text \<open>
  \<^verbatim>\<open>score\<close> builds the three XGBoost dictionaries (kept in insertion order) and chooses
  between learning and applying weights by the truth value of \<^verbatim>\<open>apply_weights\<close>, which is
  \<^verbatim>\<open>None\<close> or a string. Of the options it reads, \<^verbatim>\<open>test\<close> and \<^verbatim>\<open>apply_weights\<close> are
  forwarded as well.
\<close>

definition truthy :: "string option \<Rightarrow> bool" where
  "truthy v = (case v of None \<Rightarrow> False | Some s \<Rightarrow> s \<noteq> [])"

definition xgb_hyperparams :: "bool \<Rightarrow> (string \<times> xgb_value) list" where
  "xgb_hyperparams xgb_autotune =
     [(''autotune'', XBool xgb_autotune), (''autotune_num_rounds'', XInt 10),
      (''num_boost_round'', XInt 100), (''early_stopping_rounds'', XInt 10),
      (''test_size'', XFloat 0.33)]"

definition xgb_params :: "bool \<Rightarrow> (string \<times> xgb_value) list" where
  "xgb_params test =
     [(''eta'', XFloat 0.3), (''gamma'', XInt 0), (''max_depth'', XInt 6),
      (''min_child_weight'', XInt 1), (''subsample'', XInt 1), (''colsample_bytree'', XInt 1),
      (''colsample_bylevel'', XInt 1), (''colsample_bynode'', XInt 1), (''lambda'', XInt 1),
      (''alpha'', XInt 0), (''scale_pos_weight'', XInt 1), (''verbosity'', XInt 0),
      (''objective'', XStr ''binary:logitraw''), (''nthread'', XInt 1),
      (''eval_metric'', XStr ''auc'')]
     @ (if test then [(''tree_method'', XStr ''exact'')] else [])"

definition xgb_params_space :: "(string \<times> hp_value) list" where
  "xgb_params_space =
     [(''eta'', Hp_uniform ''eta'' 0.0 0.3), (''gamma'', Hp_uniform ''gamma'' 0.0 0.5),
      (''max_depth'', Hp_quniform ''max_depth'' 2 8 1),
      (''min_child_weight'', Hp_quniform ''min_child_weight'' 1 5 1),
      (''subsample'', Hp_const (XInt 1)), (''colsample_bytree'', Hp_const (XInt 1)),
      (''colsample_bylevel'', Hp_const (XInt 1)), (''colsample_bynode'', Hp_const (XInt 1)),
      (''lambda'', Hp_uniform ''lambda'' 0.0 1.0), (''alpha'', Hp_uniform ''alpha'' 0.0 1.0),
      (''scale_pos_weight'', Hp_const (XFloat 1.0)), (''verbosity'', Hp_const (XInt 0)),
      (''objective'', Hp_const (XStr ''binary:logitraw'')), (''nthread'', Hp_const (XInt 1)),
      (''eval_metric'', Hp_const (XStr ''auc''))]"

definition score ::
  "string \<Rightarrow> string option \<Rightarrow> bool \<Rightarrow> string option \<Rightarrow> bool \<Rightarrow> 'o \<Rightarrow> 'o outcome" where
  "score infile outfile xgb_autotune apply_weights test opts =
     (let outfile = (case outfile of None \<Rightarrow> infile | Some p \<Rightarrow> p) in
      if \<not> truthy apply_weights then
        Calls (PyProphetLearner_run infile outfile (xgb_hyperparams xgb_autotune)
                 (xgb_params test) xgb_params_space opts test)
      else
        Calls (PyProphetWeightApplier_run infile outfile (xgb_hyperparams xgb_autotune)
                 (xgb_params test) xgb_params_space opts test apply_weights))"

definition ipf :: "string \<Rightarrow> string option \<Rightarrow> 'o \<Rightarrow> 'o outcome" where
  "ipf infile outfile opts =
     (let outfile = (case outfile of None \<Rightarrow> infile | Some p \<Rightarrow> p) in
      Calls (Infer_peptidoforms infile outfile opts))"

definition glycoform :: "string \<Rightarrow> string option \<Rightarrow> 'o \<Rightarrow> 'o outcome" where
  "glycoform infile outfile opts =
     (let outfile = (case outfile of None \<Rightarrow> infile | Some p \<Rightarrow> p) in
      Calls (Infer_glycoforms infile outfile opts))"

definition peptide :: "string \<Rightarrow> string option \<Rightarrow> 'o \<Rightarrow> 'o outcome" where
  "peptide infile outfile opts =
     (let outfile = (case outfile of None \<Rightarrow> infile | Some p \<Rightarrow> p) in
      Calls (Infer_peptides infile outfile opts))"

definition glycopeptide :: "string \<Rightarrow> string option \<Rightarrow> 'o \<Rightarrow> 'o outcome" where
  "glycopeptide infile outfile opts =
     (let outfile = (case outfile of None \<Rightarrow> infile | Some p \<Rightarrow> p) in
      Calls (Infer_glycopeptides infile outfile opts))"

definition gene :: "string \<Rightarrow> string option \<Rightarrow> 'o \<Rightarrow> 'o outcome" where
  "gene infile outfile opts =
     (let outfile = (case outfile of None \<Rightarrow> infile | Some p \<Rightarrow> p) in
      Calls (Infer_genes infile outfile opts))"

definition protein :: "string \<Rightarrow> string option \<Rightarrow> 'o \<Rightarrow> 'o outcome" where
  "protein infile outfile opts =
     (let outfile = (case outfile of None \<Rightarrow> infile | Some p \<Rightarrow> p) in
      Calls (Infer_proteins infile outfile opts))"

definition subsample :: "string \<Rightarrow> string option \<Rightarrow> 'o \<Rightarrow> 'o outcome" where
  "subsample infile outfile opts =
     (let outfile = (case outfile of None \<Rightarrow> infile | Some p \<Rightarrow> p) in
      Calls (Subsample_osw infile outfile opts))"

definition reduce :: "string \<Rightarrow> string option \<Rightarrow> 'o outcome" where
  "reduce infile outfile =
     (let outfile = (case outfile of None \<Rightarrow> infile | Some p \<Rightarrow> p) in
      Calls (Reduce_osw infile outfile))"

definition backpropagate :: "string \<Rightarrow> string option \<Rightarrow> string \<Rightarrow> 'o outcome" where
  "backpropagate infile outfile apply_scores =
     (let outfile = (case outfile of None \<Rightarrow> infile | Some p \<Rightarrow> p) in
      Calls (Backpropagate_oswr infile outfile apply_scores))"

text \<open>
  The export subcommands take an optional \<^verbatim>\<open>--out\<close> too. \<^verbatim>\<open>infile.split(".osw")[0]\<close> is
  the input path up to the first \<^verbatim>\<open>.osw\<close> in it (all of it when there is none).
\<close>

fun before_first :: "string \<Rightarrow> string \<Rightarrow> string" where
  "before_first sep [] = []"
| "before_first sep (c # cs) = (if prefix sep (c # cs) then [] else c # before_first sep cs)"

definition export ::
  "string \<Rightarrow> string option \<Rightarrow> export_format \<Rightarrow> bool \<Rightarrow> bool \<Rightarrow> 'o \<Rightarrow> 'o outcome" where
  "export infile outfile format outcsv glycoform_flag opts =
     (if glycoform_flag then
        (if format = Score_plots then Calls (Export_glyco_score_plots infile)
         else
           (let outfile =
                  (case outfile of
                     None \<Rightarrow>
                       (if outcsv then before_first ''.osw'' infile @ ''.csv''
                        else before_first ''.osw'' infile @ ''.tsv'')
                   | Some p \<Rightarrow> p)
            in Calls (Export_glyco_tsv infile outfile format outcsv opts)))
      else
        (if format = Score_plots then Calls (Export_score_plots infile)
         else
           (let outfile =
                  (case outfile of
                     None \<Rightarrow>
                       (if outcsv then before_first ''.osw'' infile @ ''.csv''
                        else before_first ''.osw'' infile @ ''.tsv'')
                   | Some p \<Rightarrow> p)
            in Calls (Export_tsv infile outfile format outcsv opts))))"

definition export_compound ::
  "string \<Rightarrow> string option \<Rightarrow> export_format \<Rightarrow> bool \<Rightarrow> 'o \<Rightarrow> 'o outcome" where
  "export_compound infile outfile format outcsv opts =
     (if format = Score_plots then Calls (Export_score_plots infile)
      else
        (let outfile =
               (case outfile of
                  None \<Rightarrow>
                    (if outcsv then before_first ''.osw'' infile @ ''.csv''
                     else before_first ''.osw'' infile @ ''.tsv'')
                | Some p \<Rightarrow> p)
         in Calls (Export_compound_tsv infile outfile format outcsv opts)))"

section \<open>The step-up q-value correction\<close>

text \<open>
  Modelled from the spec: the q-value routine of the FDR Calculator, which \<^verbatim>\<open>main.py\<close>
  only reaches through \<^verbatim>\<open>PyProphetLearner\<close>, \<^verbatim>\<open>PyProphetWeightApplier\<close> and the
  \<^verbatim>\<open>infer_*\<close> functions. Section 4.3 of the specification: q-values are a "monotone,
  step-up multiple-testing correction over the sorted p-values, scaled by pi0". With
  \<open>m\<close> p-values sorted ascending, the one of rank \<open>i\<close> has the rate
  \<open>pi0 * m * p / i\<close>, and the step-up pass, from the largest p-value down, gives each
  p-value the smallest rate found at its rank or above.
\<close>

fun step_up :: "real list \<Rightarrow> real list" where
  "step_up [] = []"
| "step_up [x] = [x]"
| "step_up (x # y # ys) =
     (case step_up (y # ys) of [] \<Rightarrow> [x] | q # qs \<Rightarrow> min x q # q # qs)"

text \<open>
  Modelled from the spec: the rates the correction starts from, the p-value "scaled by
  pi0" and by the number of tests over its rank among the sorted p-values (the first
  has rank 1).
\<close>

definition rates :: "real \<Rightarrow> real list \<Rightarrow> real list" where
  "rates pi0 sorted_p =
     map (\<lambda>(i, p). pi0 * real (length sorted_p) * p / real (Suc i)) (enumerate 0 sorted_p)"

text \<open>
  Modelled from the spec: the q-value table of a list of p-values given in any order,
  each sorted p-value paired with its q-value.
\<close>

definition qvalues :: "real \<Rightarrow> real list \<Rightarrow> (real \<times> real) list" where
  "qvalues pi0 pvalues =
     (let sorted_p = sort pvalues in zip sorted_p (step_up (rates pi0 sorted_p)))"

section \<open>Properties of the command-line layer\<close>

text \<open>
  C9. \<^verbatim>\<open>filter\<close> never raises either of its two \<^verbatim>\<open>ClickException\<close>s. When the database
  files are neither all \<^verbatim>\<open>.sqmass\<close> nor all \<^verbatim>\<open>.osw\<close>, the command returns without calling
  \<^verbatim>\<open>filter_sqmass\<close> or \<^verbatim>\<open>filter_osw\<close>. When they are all \<^verbatim>\<open>.sqmass\<close>, \<^verbatim>\<open>--in\<close> is missing
  and \<^verbatim>\<open>keep_naked_peptides\<close> is empty, the check raises nothing either and the command
  goes on to \<^verbatim>\<open>filter_sqmass\<close> with \<^verbatim>\<open>infile = None\<close>. No arguments at all make the
  command itself raise a \<^verbatim>\<open>ClickException\<close>.
\<close>

theorem filter_click_exceptions_never_raised:
  "(\<not> list_all (\<lambda>file. suffix_lower file = ''.sqmass'') sqldbfiles \<and>
    \<not> list_all (\<lambda>file. suffix_lower file = ''.osw'') sqldbfiles \<longrightarrow>
      filter_command suffix_lower sqldbfiles infile max_precursor_pep max_peakgroup_pep
        max_transition_pep remove_decoys omit_tables max_gene_fdr max_protein_fdr
        max_peptide_fdr max_ms2_fdr keep_naked_peptides run_ids = (Returns :: 'o outcome)) \<and>
   (list_all (\<lambda>file. suffix_lower file = ''.sqmass'') sqldbfiles \<and>
    py_len keep_naked_peptides = Inr 0 \<longrightarrow>
      filter_command suffix_lower sqldbfiles None max_precursor_pep max_peakgroup_pep
        max_transition_pep remove_decoys omit_tables max_gene_fdr max_protein_fdr
        max_peptide_fdr max_ms2_fdr keep_naked_peptides run_ids =
      (Calls (Filter_sqmass sqldbfiles None max_precursor_pep max_peakgroup_pep
                max_transition_pep keep_naked_peptides remove_decoys) :: 'o outcome)) \<and>
   filter_command suffix_lower sqldbfiles infile max_precursor_pep max_peakgroup_pep
     max_transition_pep remove_decoys omit_tables max_gene_fdr max_protein_fdr
     max_peptide_fdr max_ms2_fdr keep_naked_peptides run_ids \<noteq>
   (Raises (ClickException m) :: 'o outcome)"
  by (cases keep_naked_peptides) (auto simp: filter_command_def)

lemma suffix_of_run1: "posix_suffix_lower ''data/run1.sqMass'' = ''.sqmass''"
  by (simp add: posix_suffix_lower_def path_suffix_def path_name_def rfind_dot_def
      ascii_lower_def)

lemma suffix_of_run2: "posix_suffix_lower ''data/run2.osw'' = ''.osw''"
  by (simp add: posix_suffix_lower_def path_suffix_def path_name_def rfind_dot_def
      ascii_lower_def)

theorem filter_click_exceptions_never_raised_witness:
  "filter_command posix_suffix_lower [''data/run1.sqMass'', ''data/run2.osw''] None 0.7 0.7 0.7
     True (PyList []) None None None None (PyList []) (PyList []) = (Returns :: unit outcome) \<and>
   filter_command posix_suffix_lower [''data/run1.sqMass''] None 0.7 0.7 0.7
     True (PyList []) None None None None (PyList []) (PyList []) =
   (Calls (Filter_sqmass [''data/run1.sqMass''] None 0.7 0.7 0.7 (PyList []) True)
      :: unit outcome)"
  using
    filter_click_exceptions_never_raised
      [where ?'o = unit and suffix_lower = posix_suffix_lower
         and sqldbfiles = "[''data/run1.sqMass'', ''data/run2.osw'']" and infile = None
         and max_precursor_pep = "0.7" and max_peakgroup_pep = "0.7"
         and max_transition_pep = "0.7"
         and remove_decoys = True and omit_tables = "PyList []" and max_gene_fdr = None
         and max_protein_fdr = None and max_peptide_fdr = None and max_ms2_fdr = None
         and keep_naked_peptides = "PyList []" and run_ids = "PyList []"
         and m = Need_infile_or_naked_peptides]
    filter_click_exceptions_never_raised
      [where ?'o = unit and suffix_lower = posix_suffix_lower
         and sqldbfiles = "[''data/run1.sqMass'']" and infile = None
         and max_precursor_pep = "0.7" and max_peakgroup_pep = "0.7"
         and max_transition_pep = "0.7"
         and remove_decoys = True and omit_tables = "PyList []" and max_gene_fdr = None
         and max_protein_fdr = None and max_peptide_fdr = None and max_ms2_fdr = None
         and keep_naked_peptides = "PyList []" and run_ids = "PyList []"
         and m = Need_infile_or_naked_peptides]
  by (simp add: suffix_of_run1 suffix_of_run2)

text \<open>
  The export subcommands derive their default output path from the input path: it is
  cut at its first \<^verbatim>\<open>.osw\<close> and extended by \<^verbatim>\<open>.csv\<close> or \<^verbatim>\<open>.tsv\<close>; the score plots take
  no output path.
\<close>

lemma export_default_outfile:
  "export infile None format outcsv glycoform_flag opts =
     (if format = Score_plots
      then Calls ((if glycoform_flag then Export_glyco_score_plots else Export_score_plots)
                    infile)
      else Calls ((if glycoform_flag then Export_glyco_tsv else Export_tsv) infile
                    (before_first ''.osw'' infile @ (if outcsv then ''.csv'' else ''.tsv''))
                    format outcsv opts)) \<and>
   export_compound infile None format outcsv opts =
     (if format = Score_plots then Calls (Export_score_plots infile)
      else Calls (Export_compound_tsv infile
                    (before_first ''.osw'' infile @ (if outcsv then ''.csv'' else ''.tsv''))
                    format outcsv opts))"
  by (simp add: export_def export_compound_def)

lemma export_run1: "export ''run1.osw'' None Legacy_split False False () =
  Calls (Export_tsv ''run1.osw'' ''run1.tsv'' Legacy_split False ())"
  by (simp add: export_def)

text \<open>
  C10. For each of \<^verbatim>\<open>score\<close>, \<^verbatim>\<open>ipf\<close>, \<^verbatim>\<open>glycoform\<close>, \<^verbatim>\<open>peptide\<close>, \<^verbatim>\<open>glycopeptide\<close>,
  \<^verbatim>\<open>gene\<close>, \<^verbatim>\<open>protein\<close>, \<^verbatim>\<open>subsample\<close>, \<^verbatim>\<open>reduce\<close> and \<^verbatim>\<open>backpropagate\<close>, omitting
  \<^verbatim>\<open>--out\<close> sets the output path equal to the input path: the function that does the
  work receives the input path both as the file to read and as the file to write, so
  the results go in place over the input file. For \<^verbatim>\<open>score\<close> this holds on both
  branches, learning and applying weights.
\<close>

theorem omitted_out_defaults:
  "score infile None xgb_autotune apply_weights test opts =
     (if truthy apply_weights
      then Calls (PyProphetWeightApplier_run infile infile (xgb_hyperparams xgb_autotune)
                    (xgb_params test) xgb_params_space opts test apply_weights)
      else Calls (PyProphetLearner_run infile infile (xgb_hyperparams xgb_autotune)
                    (xgb_params test) xgb_params_space opts test)) \<and>
   ipf infile None opts = Calls (Infer_peptidoforms infile infile opts) \<and>
   glycoform infile None opts = Calls (Infer_glycoforms infile infile opts) \<and>
   peptide infile None opts = Calls (Infer_peptides infile infile opts) \<and>
   glycopeptide infile None opts = Calls (Infer_glycopeptides infile infile opts) \<and>
   gene infile None opts = Calls (Infer_genes infile infile opts) \<and>
   protein infile None opts = Calls (Infer_proteins infile infile opts) \<and>
   subsample infile None opts = Calls (Subsample_osw infile infile opts) \<and>
   (reduce infile None :: 'o outcome) = Calls (Reduce_osw infile infile) \<and>
   (backpropagate infile None apply_scores :: 'o outcome) =
     Calls (Backpropagate_oswr infile infile apply_scores)"
  by (simp add: score_def ipf_def glycoform_def peptide_def glycopeptide_def gene_def
      protein_def subsample_def reduce_def backpropagate_def)

section \<open>Properties of the step-up correction\<close>

lemma step_up_length: "length (step_up xs) = length xs"
  by (induction xs rule: step_up.induct) (auto split: list.splits)

lemma step_up_sorted: "sorted (step_up xs)"
proof (induction xs rule: step_up.induct)
  case (3 x y ys)
  then show ?case
    by (cases "step_up (y # ys)") auto
qed simp_all

lemma rates_length: "length (rates pi0 ps) = length ps"
  by (simp add: rates_def)

lemma qvalues_pairwise:
  assumes "(p, q) \<in> set (qvalues pi0 pvalues)" and "(p', q') \<in> set (qvalues pi0 pvalues)"
    and "p < p'"
  shows "q \<le> q'"
proof -
  let ?s = "sort pvalues"
  let ?qs = "step_up (rates pi0 ?s)"
  have len: "length ?qs = length ?s"
    by (simp add: step_up_length rates_length)
  from assms(1) obtain i where i: "i < length ?s" "?s ! i = p" "?qs ! i = q"
    by (auto simp: qvalues_def Let_def in_set_zip len)
  from assms(2) obtain j where j: "j < length ?s" "?s ! j = p'" "?qs ! j = q'"
    by (auto simp: qvalues_def Let_def in_set_zip len)
  have "i \<le> j"
  proof (rule ccontr)
    assume "\<not> i \<le> j"
    then have "j \<le> i" by simp
    then have "?s ! j \<le> ?s ! i"
      using i(1) by (intro sorted_nth_mono) simp_all
    with i(2) j(2) assms(3) show False by simp
  qed
  then have "?qs ! i \<le> ?qs ! j"
    using j(1) len by (intro sorted_nth_mono) (simp_all add: step_up_sorted)
  with i(3) j(3) show ?thesis by simp
qed

lemma qvalues_example:
  "qvalues 1 [1 / 25, 1 / 100, 3 / 100] =
     [(1 / 100, 3 / 100), (3 / 100, 1 / 25), (1 / 25, 1 / 25)]"
  by (simp add: qvalues_def rates_def enumerate_eq_zip upt_rec Let_def)

text \<open>
  C1. Listed by ascending p-value, the q-values are non-decreasing, for every list of
  p-values and every pi0: the table pairs the sorted p-values of the input with q-values
  that form a sorted list, and of any two entries the one with the strictly smaller
  p-value has the smaller or equal q-value, however equal p-values are ordered.
\<close>

theorem qvalues_monotone:
  "map fst (qvalues pi0 pvalues) = sort pvalues \<and>
   sorted (map snd (qvalues pi0 pvalues)) \<and>
   ((p, q) \<in> set (qvalues pi0 pvalues) \<and> (p', q') \<in> set (qvalues pi0 pvalues) \<and> p < p'
      \<longrightarrow> q \<le> q')"
  using qvalues_pairwise [of p q pi0 pvalues p' q']
  by (simp add: qvalues_def Let_def step_up_length rates_length step_up_sorted)

theorem qvalues_monotone_witness:
  "(1 / 100, 3 / 100) \<in> set (qvalues 1 [1 / 25, 1 / 100, 3 / 100]) \<and>
   (1 / 25, 1 / 25) \<in> set (qvalues 1 [1 / 25, 1 / 100, 3 / 100]) \<and>
   (1 / 100 :: real) < 1 / 25 \<and> (3 / 100 :: real) \<le> 1 / 25 \<and>
   map snd (qvalues 1 [1 / 25, 1 / 100, 3 / 100]) = [3 / 100, 1 / 25, 1 / 25]"
  using qvalues_monotone [of 1 "[1 / 25, 1 / 100, 3 / 100]" "1 / 100" "3 / 100" "1 / 25" "1 / 25"]
  by (simp add: qvalues_example)

end
